theory Spec2Isabelle
  imports Complex_Main "HOL-Library.Word" "HOL-Library.Multiset"
begin

section \<open>JavaScript strings\<close>

text \<open>
  A JavaScript string is a sequence of 16-bit code units. Literals of the source are
  written \<open>js ''...''\<close>; every literal of the source is ASCII, where the code unit is the
  character's code.
\<close>

type_synonym jschar = "16 word"
type_synonym jsstring = "jschar list"

definition js :: "string \<Rightarrow> jsstring" where
  "js s = map (\<lambda>c. of_nat (of_char c)) s"

text \<open>\<open>String.prototype.startsWith\<close> and \<open>endsWith\<close> with one argument.\<close>

definition startsWith :: "jsstring \<Rightarrow> jsstring \<Rightarrow> bool" where
  "startsWith s p = (take (length p) s = p)"

definition endsWith :: "jsstring \<Rightarrow> jsstring \<Rightarrow> bool" where
  "endsWith s p = (length p \<le> length s \<and> drop (length s - length p) s = p)"

text \<open>
  \<open>String.prototype.slice(start, end)\<close>: a negative index counts from the end, both
  indices are clamped to the string, and an end before the start gives the empty string.
\<close>

definition slice :: "jsstring \<Rightarrow> int \<Rightarrow> int \<Rightarrow> jsstring" where
  "slice s start fin =
     (let len = int (length s);
          from = (if start < 0 then max (len + start) 0 else min start len);
          to = (if fin < 0 then max (len + fin) 0 else min fin len)
      in take (nat (to - from)) (drop (nat from) s))"

text \<open>
  \<open>String.prototype.substr(start, length)\<close> for a start that is not negative: at most
  \<open>length\<close> code units from index \<open>start\<close>, fewer when the string ends before.
\<close>

definition substr :: "jsstring \<Rightarrow> nat \<Rightarrow> nat \<Rightarrow> jsstring" where
  "substr s start len = take len (drop start s)"

text \<open>
  \<open>String.prototype.trim\<close> strips the code units of WhiteSpace and LineTerminator from
  both ends.
\<close>

definition isLineTerminator :: "jschar \<Rightarrow> bool" where
  "isLineTerminator c = (c = 0x000A \<or> c = 0x000D \<or> c = 0x2028 \<or> c = 0x2029)"

definition isWhiteSpace :: "jschar \<Rightarrow> bool" where
  "isWhiteSpace c =
     (c = 0x0009 \<or> c = 0x000B \<or> c = 0x000C \<or> c = 0x0020 \<or> c = 0x00A0 \<or> c = 0x1680
      \<or> (0x2000 \<le> c \<and> c \<le> 0x200A) \<or> c = 0x202F \<or> c = 0x205F \<or> c = 0x3000
      \<or> c = 0xFEFF)"

definition trim :: "jsstring \<Rightarrow> jsstring" where
  "trim s =
     (let strip = dropWhile (\<lambda>c. isWhiteSpace c \<or> isLineTerminator c)
      in rev (strip (rev (strip s))))"

text \<open>
  \<open>Number.prototype.toString()\<close> and the template literal \<open>${n}\<close> on an integral number
  below \<open>10^21\<close> in magnitude (every reading of \<open>Date.now()\<close> is): the decimal digits, with
  a leading minus sign for a negative number.
\<close>

definition digit :: "nat \<Rightarrow> jschar" where
  "digit d = of_nat (48 + d)"

fun decimal :: "nat \<Rightarrow> jsstring" where
  "decimal n = (if n < 10 then [digit n] else decimal (n div 10) @ [digit (n mod 10)])"

declare decimal.simps [simp del]

definition Number_toString :: "int \<Rightarrow> jsstring" where
  "Number_toString i = (if i < 0 then 0x2D # decimal (nat (- i)) else decimal (nat i))"

text \<open>The number a string of decimal digits denotes, to read a rendering back.\<close>

fun digits_value :: "jsstring \<Rightarrow> nat" where
  "digits_value [] = 0"
| "digits_value (c # cs) = (unat c - 48) * 10 ^ length cs + digits_value cs"

text \<open>The digits of base 36, as \<open>toString(36)\<close> writes them.\<close>

definition isBase36 :: "jschar \<Rightarrow> bool" where
  "isBase36 c = ((0x30 \<le> c \<and> c \<le> 0x39) \<or> (0x61 \<le> c \<and> c \<le> 0x7A))"


section \<open>The text formatter\<close>

text \<open>
  \<^verbatim>\<open>text.split(/(\*\*.*?\*\*|\*.*?\*)/g)\<close>. The regular expression is one capture group
  around two alternatives, each an opening delimiter, a lazy \<open>.*?\<close> and the same delimiter
  closing.

  \<open>lazy_dot_then closing s\<close> is the backtracking match of \<open>.*?\<close> followed by the literal
  \<open>closing\<close> at the start of \<open>s\<close>: the lazy quantifier tries what follows it first and lets
  \<open>.\<close> consume one more code unit only when that fails; \<open>.\<close> (no \<open>s\<close> flag) refuses a
  line terminator, and the end of the input. The result is the number of code units
  matched.
\<close>

fun lazy_dot_then :: "jsstring \<Rightarrow> jsstring \<Rightarrow> nat option" where
  "lazy_dot_then closing [] = (if closing = [] then Some 0 else None)"
| "lazy_dot_then closing (c # cs) =
     (if startsWith (c # cs) closing then Some (length closing)
      else if isLineTerminator c then None
      else map_option Suc (lazy_dot_then closing cs))"

text \<open>One alternative, \<open>delim .*? delim\<close>, matched at the start of \<open>s\<close>.\<close>

definition delimited :: "jsstring \<Rightarrow> jsstring \<Rightarrow> nat option" where
  "delimited delim s =
     (if startsWith s delim
      then map_option (\<lambda>n. length delim + n) (lazy_dot_then delim (drop (length delim) s))
      else None)"

text \<open>
  The whole pattern at the start of \<open>s\<close>: the second alternative is tried only when the
  first has failed with all its backtracking.
\<close>

definition emphasis_match :: "jsstring \<Rightarrow> nat option" where
  "emphasis_match s =
     (case delimited (js ''**'') s of
        Some n \<Rightarrow> Some n
      | None \<Rightarrow> delimited (js ''*'') s)"

lemma lazy_dot_then_ge: "lazy_dot_then closing s = Some n \<Longrightarrow> length closing \<le> n"
  by (induction s arbitrary: n) (auto split: if_splits)

lemma emphasis_match_pos: "emphasis_match s = Some n \<Longrightarrow> 0 < n"
  by (auto simp: emphasis_match_def delimited_def js_def split: option.splits if_splits)

text \<open>
  The split of \<open>RegExp.prototype[Symbol.split]\<close>: the pattern is tried at every index \<open>q\<close>
  from the end \<open>p\<close> of the last match; where it fails \<open>q\<close> advances by one code unit (the
  pattern has no \<open>u\<close> flag); where it matches, the piece from \<open>p\<close> to \<open>q\<close> and then the
  capture group (here the whole match) are emitted, and both indices move behind the
  match. The rest of the string is the last piece. \<open>piece\<close> is the text between \<open>p\<close> and
  \<open>q\<close>, the second argument the text from \<open>q\<close> on. The pattern cannot match the empty
  string, so the algorithm's branch for an empty match is never taken.
\<close>

function split_from :: "jsstring \<Rightarrow> jsstring \<Rightarrow> jsstring list" where
  "split_from piece [] = [piece]"
| "split_from piece (c # cs) =
     (case emphasis_match (c # cs) of
        None \<Rightarrow> split_from (piece @ [c]) cs
      | Some n \<Rightarrow> piece # take n (c # cs) # split_from [] (drop n (c # cs)))"
  by pat_completeness auto
termination
  by (relation "measure (\<lambda>(piece, rest). length rest)")
     (auto dest: emphasis_match_pos)

definition split :: "jsstring \<Rightarrow> jsstring list" where
  "split s = split_from [] s"

text \<open>
  What \<open>formatText\<close> returns: an array of React nodes, each a \<open>strong\<close> element with
  its key and its text, or a plain string.
\<close>

datatype node = Strong nat jsstring | Text jsstring

definition format_part :: "jsstring \<Rightarrow> nat \<Rightarrow> node" where
  "format_part part idx =
     (if startsWith part (js ''**'') \<and> endsWith part (js ''**'') then Strong idx (slice part 2 (- 2))
      else if startsWith part (js ''*'') \<and> endsWith part (js ''*'') then Strong idx (slice part 1 (- 1))
      else Text part)"

text \<open>\<open>Array.prototype.map\<close> with the element and its index.\<close>

fun map_index :: "('a \<Rightarrow> nat \<Rightarrow> 'b) \<Rightarrow> nat \<Rightarrow> 'a list \<Rightarrow> 'b list" where
  "map_index f i [] = []"
| "map_index f i (x # xs) = f x i # map_index f (Suc i) xs"

definition formatText :: "jsstring \<Rightarrow> node list" where
  "formatText text = map_index format_part 0 (split text)"


section \<open>JavaScript values and thrown values\<close>

text \<open>
  The values a parsed JSON body is made of, and \<open>undefined\<close>. An object is the list of its
  own properties; the keys of a parsed object are distinct. Of a number only the test
  against zero is used.
\<close>

datatype js_number = NaN | PosInfinity | NegInfinity | Finite rat

datatype js_value =
    JUndefined
  | JNull
  | JBool bool
  | JNum js_number
  | JStr jsstring
  | JArr "js_value list"
  | JObj "(jsstring \<times> js_value) list"

text \<open>\<open>ToBoolean\<close>, the test behind \<open>!\<close>, \<open>||\<close> and \<open>if\<close>.\<close>

fun ToBoolean :: "js_value \<Rightarrow> bool" where
  "ToBoolean JUndefined = False"
| "ToBoolean JNull = False"
| "ToBoolean (JBool b) = b"
| "ToBoolean (JNum n) = (n \<noteq> NaN \<and> n \<noteq> Finite 0)"
| "ToBoolean (JStr s) = (s \<noteq> [])"
| "ToBoolean (JArr xs) = True"
| "ToBoolean (JObj kvs) = True"

text \<open>
  What a \<open>throw\<close> carries: an instance of \<open>Error\<close> with its message, or any other value.
\<close>

datatype thrown = ErrorInstance jsstring | NotAnError js_value

text \<open>
  The property read \<open>v.k\<close> for the keys \<open>reply\<close>, \<open>message\<close> and \<open>chips\<close>, which no
  built-in prototype defines: on \<open>null\<close> and \<open>undefined\<close> it throws a \<open>TypeError\<close> (its
  message is the engine's, the first argument), on an object it is the own property or
  \<open>undefined\<close>, on every other value it is \<open>undefined\<close>.
\<close>

definition own_property :: "(jsstring \<times> js_value) list \<Rightarrow> jsstring \<Rightarrow> js_value" where
  "own_property kvs k = (case map_of kvs k of None \<Rightarrow> JUndefined | Some v \<Rightarrow> v)"

fun Get :: "jsstring \<Rightarrow> js_value \<Rightarrow> jsstring \<Rightarrow> thrown + js_value" where
  "Get msg JUndefined k = Inl (ErrorInstance msg)"
| "Get msg JNull k = Inl (ErrorInstance msg)"
| "Get msg (JObj kvs) k = Inr (own_property kvs k)"
| "Get msg v k = Inr JUndefined"


section \<open>Data model\<close>

text \<open>
  \<open>ChatMessage\<close> of \<open>src/lib/supabase.ts\<close>: \<open>id\<close> (here \<open>row_id\<close>) and \<open>created_at\<close> are
  optional. The role is kept a string, as the rows reach \<open>page.tsx\<close> untyped; a
  timestamp is the instant, in milliseconds since the epoch, that its text denotes.
\<close>

record ChatMessage =
  row_id :: "jsstring option"
  session_id :: jsstring
  role :: jsstring
  content :: jsstring
  created_at :: "int option"

text \<open>
  \<open>Message\<close> of \<open>src/app/page.tsx\<close>. \<open>id\<close> and \<open>text\<close> (here \<open>msg_id\<close> and \<open>msg_text\<close>) are
  declared strings but are assigned from untyped values, so they hold any value;
  \<open>chips\<close> is optional.
\<close>

datatype sender = User | Bot

datatype Date = Date int | Invalid_Date

record Message =
  msg_id :: js_value
  msg_text :: js_value
  sender :: sender
  timestamp :: Date
  chips :: "js_value option"


section \<open>Message store gateway\<close>

text \<open>
  The client of the hosted store is a library. A call on it is described by the request
  the code builds; the store's answer is an argument of the model: the awaited promise
  rejects, or resolves to a failure \<open>{data: null, error}\<close> or to a success
  \<open>{data, error: null}\<close>.
\<close>

record select_query =
  from_table :: jsstring
  columns :: jsstring
  eq_column :: jsstring
  eq_value :: jsstring
  order_column :: jsstring
  ascending :: bool

datatype db_request = Select select_query | Insert jsstring "ChatMessage list"

datatype PostgrestError = PostgrestError jsstring

datatype db_response = Failure PostgrestError | Success "ChatMessage list option"

datatype db_outcome = Rejected thrown | Resolved db_response

type_synonym supabase = "db_request \<Rightarrow> db_outcome"

text \<open>The query of \<open>getHistory\<close> (and of the page's own history load).\<close>

definition history_query :: "jsstring \<Rightarrow> db_request" where
  "history_query sessionId =
     Select \<lparr>from_table = js ''chat_messages'', columns = js ''*'',
             eq_column = js ''session_id'', eq_value = sessionId,
             order_column = js ''created_at'', ascending = True\<rparr>"

text \<open>
  \<open>getHistory\<close>: the body of the \<open>try\<close> block, where an awaited rejection is a throw, and
  the function with its \<open>catch\<close>. \<open>None\<close> is \<open>null\<close>. The result is a sum so that a throw
  leaving the function would be a value \<open>Inl\<close>.
\<close>

definition getHistory_try :: "supabase \<Rightarrow> jsstring \<Rightarrow> thrown + ChatMessage list option" where
  "getHistory_try supabase sessionId =
     (case supabase (history_query sessionId) of
        Rejected e \<Rightarrow> Inl e
      | Resolved (Failure error) \<Rightarrow> Inr None
      | Resolved (Success data) \<Rightarrow> Inr data)"

definition getHistory :: "supabase \<Rightarrow> jsstring \<Rightarrow> thrown + ChatMessage list option" where
  "getHistory supabase sessionId =
     (case getHistory_try supabase sessionId of
        Inl error \<Rightarrow> Inr None
      | Inr result \<Rightarrow> Inr result)"

text \<open>\<open>saveMessage\<close>: one row with the three fields the code writes, and nothing else.\<close>

definition save_request :: "jsstring \<Rightarrow> jsstring \<Rightarrow> jsstring \<Rightarrow> db_request" where
  "save_request sessionId r c =
     Insert (js ''chat_messages'')
       [\<lparr>row_id = None, session_id = sessionId, role = r, content = c, created_at = None\<rparr>]"

definition saveMessage_try ::
  "supabase \<Rightarrow> jsstring \<Rightarrow> jsstring \<Rightarrow> jsstring \<Rightarrow> thrown + ChatMessage list option" where
  "saveMessage_try supabase sessionId r c =
     (case supabase (save_request sessionId r c) of
        Rejected e \<Rightarrow> Inl e
      | Resolved (Failure error) \<Rightarrow> Inr None
      | Resolved (Success data) \<Rightarrow> Inr data)"

definition saveMessage ::
  "supabase \<Rightarrow> jsstring \<Rightarrow> jsstring \<Rightarrow> jsstring \<Rightarrow> thrown + ChatMessage list option" where
  "saveMessage supabase sessionId r c =
     (case saveMessage_try supabase sessionId r c of
        Inl error \<Rightarrow> Inr None
      | Inr result \<Rightarrow> Inr result)"

text \<open>
  The hosted store itself is outside the repository. Its answer to a select, as section 6
  of the spec reads the one shape of query the repository issues: all columns of the rows
  of \<open>chat_messages\<close> whose \<open>session_id\<close> equals the value, ordered by \<open>created_at\<close>. A
  stored row has every column. A query of another shape is not answered by this model
  (\<open>None\<close>).
\<close>

record Row =
  col_id :: jsstring
  col_session_id :: jsstring
  col_role :: jsstring
  col_content :: jsstring
  col_created_at :: int

definition as_ChatMessage :: "Row \<Rightarrow> ChatMessage" where
  "as_ChatMessage r =
     \<lparr>row_id = Some (col_id r), session_id = col_session_id r, role = col_role r,
      content = col_content r, created_at = Some (col_created_at r)\<rparr>"

definition select_rows :: "Row list \<Rightarrow> select_query \<Rightarrow> Row list option" where
  "select_rows table q =
     (if from_table q = js ''chat_messages'' \<and> columns q = js ''*''
         \<and> eq_column q = js ''session_id'' \<and> order_column q = js ''created_at''
      then let found = sort_key col_created_at (filter (\<lambda>r. col_session_id r = eq_value q) table)
           in Some (if ascending q then found else rev found)
      else None)"

text \<open>
  A reachable store that holds \<open>table\<close>: it answers the selects the model reads, and
  leaves every other request to \<open>other\<close>.
\<close>

definition hosted :: "Row list \<Rightarrow> supabase \<Rightarrow> supabase" where
  "hosted table other request =
     (case request of
        Select q \<Rightarrow>
          (case select_rows table q of
             Some rows \<Rightarrow> Resolved (Success (Some (map as_ChatMessage rows)))
           | None \<Rightarrow> other request)
      | Insert t rows \<Rightarrow> other request)"


section \<open>Session identifier\<close>

text \<open>
  The template literal
  \<^verbatim>\<open>`session_${Date.now()}_${Math.random().toString(36).substr(2, 9)}`\<close>
  of lines 42 and 157. \<open>now\<close> is the reading of \<open>Date.now()\<close>, \<open>random36\<close> the string
  \<open>Math.random().toString(36)\<close>, both the platform's.
\<close>

definition newSessionId :: "int \<Rightarrow> jsstring \<Rightarrow> jsstring" where
  "newSessionId now random36 =
     js ''session_'' @ Number_toString now @ js ''_'' @ substr random36 2 9"

text \<open>
  Lines 38 to 44: the value of \<open>savedSessionId\<close> and the local storage after them.
  \<open>getItem\<close> gives \<open>null\<close> for a missing key, and \<open>!savedSessionId\<close> holds for \<open>null\<close> and for
  the empty string.
\<close>

type_synonym storage = "jsstring \<rightharpoonup> jsstring"

definition savedSessionId :: "int \<Rightarrow> jsstring \<Rightarrow> storage \<Rightarrow> jsstring \<times> storage" where
  "savedSessionId now random36 localStorage =
     (let fresh = newSessionId now random36;
          created = (fresh, localStorage(js ''chatSessionId'' \<mapsto> fresh))
      in case localStorage (js ''chatSessionId'') of
           None \<Rightarrow> created
         | Some saved \<Rightarrow> if saved = [] then created else (saved, localStorage))"


section \<open>Chat view controller\<close>

text \<open>
  The component's state, and what lies outside it: the local storage and the requests
  sent so far, oldest first.
\<close>

record Home =
  messages :: "Message list"
  input :: jsstring
  loading :: bool
  sessionId :: jsstring

record http_request =
  url :: jsstring
  http_method :: jsstring
  headers :: "(jsstring \<times> jsstring) list"
  body :: jsstring

datatype outbound = Query db_request | Post http_request

record browser =
  localStorage :: storage
  sent :: "outbound list"

definition mounted :: Home where
  "mounted = \<lparr>messages = [], input = [], loading = False, sessionId = []\<rparr>"

subsection \<open>\<open>initializeSession\<close>\<close>

text \<open>The callback of \<open>data.map\<close>, lines 62 to 67: no \<open>chips\<close> property is written.\<close>

definition loadedMessage :: "ChatMessage \<Rightarrow> Message" where
  "loadedMessage msg =
     \<lparr>msg_id = (case row_id msg of None \<Rightarrow> JUndefined | Some i \<Rightarrow> JStr i),
      msg_text = JStr (content msg),
      sender = (if role msg = js ''user'' then User else Bot),
      timestamp = (case created_at msg of None \<Rightarrow> Invalid_Date | Some t \<Rightarrow> Date t),
      chips = None\<rparr>"

text \<open>
  \<open>initializeSession\<close>, lines 36 to 73. A rejection of the awaited query is caught and
  logged; an \<open>error\<close> returns early; \<open>data && data.length > 0\<close> guards the load.
\<close>

definition initializeSession ::
  "int \<Rightarrow> jsstring \<Rightarrow> supabase \<Rightarrow> Home \<times> browser \<Rightarrow> Home \<times> browser" where
  "initializeSession now random36 supabase hb =
     (let (h, b) = hb;
          (savedId, stored) = savedSessionId now random36 (localStorage b);
          h1 = h\<lparr>sessionId := savedId\<rparr>;
          b1 = b\<lparr>localStorage := stored, sent := sent b @ [Query (history_query savedId)]\<rparr>
      in case supabase (history_query savedId) of
           Rejected error \<Rightarrow> (h1, b1)
         | Resolved (Failure error) \<Rightarrow> (h1, b1)
         | Resolved (Success None) \<Rightarrow> (h1, b1)
         | Resolved (Success (Some data)) \<Rightarrow>
             if length data > 0 then (h1\<lparr>messages := map loadedMessage data\<rparr>, b1)
             else (h1, b1))"

subsection \<open>\<open>handleSend\<close>\<close>

text \<open>
  What the platform gives one call of \<open>handleSend\<close>: the clock readings in the order the
  code takes them, the configured backend URL (\<open>None\<close> when the variable is not set), the
  outcome of \<open>fetch\<close> for a request, \<open>JSON.stringify\<close>, and the message of the engine's
  \<open>TypeError\<close> for a property read on \<open>null\<close>.

  The promise of \<open>fetch\<close> rejects, or resolves to a response with its \<open>ok\<close> flag, its
  status text, and what \<open>response.json()\<close> settles to: a rejection or the parsed body.
\<close>

datatype fetch_outcome = FetchRejects thrown | Response bool jsstring "thrown + js_value"

record send_env =
  send_now :: int
  send_date :: int
  backendUrl :: "jsstring option"
  fetch :: "http_request \<Rightarrow> fetch_outcome"
  JSON_stringify :: "js_value \<Rightarrow> jsstring"
  TypeError_message :: jsstring
  reply_now :: int
  reply_date :: int

text \<open>Lines 89 to 94.\<close>

definition userMessage :: "send_env \<Rightarrow> jsstring \<Rightarrow> Message" where
  "userMessage env inp =
     \<lparr>msg_id = JStr (Number_toString (send_now env)), msg_text = JStr inp, sender = User,
      timestamp = Date (send_date env), chips = None\<rparr>"

text \<open>Lines 102 to 109: the request; an unset URL prints as \<open>undefined\<close> in the template.\<close>

definition chat_request :: "send_env \<Rightarrow> jsstring \<Rightarrow> jsstring \<Rightarrow> http_request" where
  "chat_request env messageText sid =
     \<lparr>url = (case backendUrl env of None \<Rightarrow> js ''undefined'' | Some u \<Rightarrow> u) @ js ''/chat'',
      http_method = js ''POST'',
      headers = [(js ''Content-Type'', js ''application/json'')],
      body = JSON_stringify env
               (JObj [(js ''message'', JStr messageText), (js ''session_id'', JStr sid)])\<rparr>"

text \<open>
  Lines 113 to 119: \<open>data.reply || data.message || JSON.stringify(data)\<close> and
  \<open>data.chips || []\<close>, each operand evaluated only when the ones before it are falsy; a
  property read that throws leaves the block.
\<close>

definition reply_text :: "send_env \<Rightarrow> js_value \<Rightarrow> thrown + js_value" where
  "reply_text env data =
     (case Get (TypeError_message env) data (js ''reply'') of
        Inl e \<Rightarrow> Inl e
      | Inr reply \<Rightarrow>
          if ToBoolean reply then Inr reply
          else (case Get (TypeError_message env) data (js ''message'') of
                  Inl e \<Rightarrow> Inl e
                | Inr message \<Rightarrow>
                    if ToBoolean message then Inr message
                    else Inr (JStr (JSON_stringify env data))))"

definition reply_chips :: "send_env \<Rightarrow> js_value \<Rightarrow> thrown + js_value" where
  "reply_chips env data =
     (case Get (TypeError_message env) data (js ''chips'') of
        Inl e \<Rightarrow> Inl e
      | Inr c \<Rightarrow> if ToBoolean c then Inr c else Inr (JArr []))"

definition botMessage :: "send_env \<Rightarrow> js_value \<Rightarrow> thrown + Message" where
  "botMessage env data =
     (case reply_text env data of
        Inl e \<Rightarrow> Inl e
      | Inr t \<Rightarrow>
          (case reply_chips env data of
             Inl e \<Rightarrow> Inl e
           | Inr c \<Rightarrow>
               Inr \<lparr>msg_id = JStr (Number_toString (reply_now env + 1)), msg_text = t,
                    sender = Bot, timestamp = Date (reply_date env), chips = Some c\<rparr>))"

text \<open>Lines 122 to 127 and 131 to 136: the error message has no \<open>chips\<close> property.\<close>

definition errorMessage :: "send_env \<Rightarrow> jsstring \<Rightarrow> Message" where
  "errorMessage env detail =
     \<lparr>msg_id = JStr (Number_toString (reply_now env + 1)),
      msg_text = JStr (js ''Error: '' @ detail), sender = Bot,
      timestamp = Date (reply_date env), chips = None\<rparr>"

text \<open>\<open>error instanceof Error ? error.message : "Unknown error"\<close>.\<close>

definition error_detail :: "thrown \<Rightarrow> jsstring" where
  "error_detail error =
     (case error of ErrorInstance m \<Rightarrow> m | NotAnError v \<Rightarrow> js ''Unknown error'')"

text \<open>
  The \<open>try\<close> block from the settling of \<open>fetch\<close> on, lines 103 to 129: the message to
  append, or the throw that leaves the block.
\<close>

definition try_reply :: "send_env \<Rightarrow> fetch_outcome \<Rightarrow> thrown + Message" where
  "try_reply env outcome =
     (case outcome of
        FetchRejects e \<Rightarrow> Inl e
      | Response ok statusText json \<Rightarrow>
          if ok then (case json of Inl e \<Rightarrow> Inl e | Inr data \<Rightarrow> botMessage env data)
          else Inr (errorMessage env statusText))"

text \<open>
  What happens when the request settles: the \<open>try\<close> block's message or the \<open>catch\<close>
  block's is appended by a functional update of the state of that moment, and \<open>finally\<close>
  clears the loading flag.
\<close>

definition settled_message :: "send_env \<Rightarrow> fetch_outcome \<Rightarrow> Message" where
  "settled_message env outcome =
     (case try_reply env outcome of
        Inl error \<Rightarrow> errorMessage env (error_detail error)
      | Inr m \<Rightarrow> m)"

definition settle :: "send_env \<Rightarrow> fetch_outcome \<Rightarrow> Home \<Rightarrow> Home" where
  "settle env outcome h =
     (h\<lparr>messages := messages h @ [settled_message env outcome]\<rparr>)\<lparr>loading := False\<rparr>"

text \<open>
  \<open>handleSend\<close>, lines 86 to 141, run without another event in between. The result is a
  sum so that a throw leaving the function would be a value \<open>Inl\<close>.
\<close>

definition handleSend :: "send_env \<Rightarrow> Home \<times> browser \<Rightarrow> thrown + Home \<times> browser" where
  "handleSend env hb =
     (let (h, b) = hb in
      if trim (input h) = [] \<or> sessionId h = [] then Inr (h, b)
      else
        let h1 = h\<lparr>messages := messages h @ [userMessage env (input h)],
                   input := [], loading := True\<rparr>;
            request = chat_request env (input h) (sessionId h);
            b1 = b\<lparr>sent := sent b @ [Post request]\<rparr>
        in Inr (settle env (fetch env request) h1, b1))"

subsection \<open>\<open>handleClearChat\<close>\<close>

text \<open>
  Lines 150 to 161. \<open>confirmed\<close> is the answer of \<open>confirm\<close>; \<open>now\<close> and \<open>random36\<close> are
  as for \<open>newSessionId\<close>.
\<close>

definition handleClearChat ::
  "bool \<Rightarrow> int \<Rightarrow> jsstring \<Rightarrow> Home \<times> browser \<Rightarrow> Home \<times> browser" where
  "handleClearChat confirmed now random36 hb =
     (let (h, b) = hb in
      if confirmed
      then let fresh = newSessionId now random36
           in (h\<lparr>messages := [], input := [], sessionId := fresh\<rparr>,
               b\<lparr>localStorage := (localStorage b)(js ''chatSessionId'' \<mapsto> fresh)\<rparr>)
      else (h, b))"


section \<open>Values for the closed examples\<close>

text \<open>
  A platform for the closed examples: the backend is unreachable, so that only the
  outcomes written out in an example matter. Its \<open>JSON.stringify\<close> is a stand-in, and no
  example reads a text it returns.
\<close>

definition example_env :: send_env where
  "example_env =
     \<lparr>send_now = 1700000000000, send_date = 1700000000000,
      backendUrl = Some (js ''http://localhost:8000''),
      fetch = (\<lambda>request. FetchRejects (ErrorInstance (js ''Failed to fetch''))),
      JSON_stringify = (\<lambda>v. js ''{}''),
      TypeError_message = js ''Cannot read properties of null'',
      reply_now = 1700000000500, reply_date = 1700000000500\<rparr>"

text \<open>The same platform with a backend that answers every request with one body.\<close>

definition replying :: "js_value \<Rightarrow> send_env" where
  "replying data = example_env\<lparr>fetch := (\<lambda>request. Response True (js ''OK'') (Inr data))\<rparr>"

text \<open>
  A store that cannot be reached, one that refuses, and one that accepts an insert
  (\<open>data\<close> is \<open>null\<close> on an insert without a select); a table of three rows of two
  sessions, out of order; a browser that has a session stored; a page with a pending
  input.
\<close>

definition offline :: supabase where
  "offline request = Rejected (ErrorInstance (js ''Failed to fetch''))"

definition example_table :: "Row list" where
  "example_table =
     [\<lparr>col_id = js ''3'', col_session_id = js ''session_5_abc'', col_role = js ''assistant'',
       col_content = js ''hello there'', col_created_at = 1700000002000\<rparr>,
      \<lparr>col_id = js ''2'', col_session_id = js ''session_9_xyz'', col_role = js ''user'',
       col_content = js ''other'', col_created_at = 1700000001500\<rparr>,
      \<lparr>col_id = js ''1'', col_session_id = js ''session_5_abc'', col_role = js ''user'',
       col_content = js ''hi'', col_created_at = 1700000001000\<rparr>]"

definition example_browser :: browser where
  "example_browser = \<lparr>localStorage = [js ''chatSessionId'' \<mapsto> js ''session_5_abc''], sent = []\<rparr>"

definition denied :: supabase where
  "denied request = Resolved (Failure (PostgrestError (js ''permission denied'')))"

definition inserted :: supabase where
  "inserted request = Resolved (Success None)"

definition example_home :: Home where
  "example_home = mounted\<lparr>input := js ''hello'', sessionId := js ''session_5_abc''\<rparr>"



section \<open>Facts about the string functions\<close>

text \<open>
  The decimal rendering unfolds on a numeral by the two conditional equations below; it can
  be read back, so it is injective, and it holds digits only (and the sign).
\<close>

lemma decimal_lt10: "n < 10 \<Longrightarrow> decimal n = [digit n]"
  by (simp add: decimal.simps)

lemma decimal_ge10: "10 \<le> n \<Longrightarrow> decimal n = decimal (n div 10) @ [digit (n mod 10)]"
  by (subst decimal.simps) simp

lemma unat_digit: "d < 10 \<Longrightarrow> unat (digit d) = 48 + d"
proof -
  assume "d < 10"
  have "unat (of_nat (48 + d) :: 16 word) = (48 + d) mod 2 ^ 16"
    by (simp only: unat_of_nat len_of_numeral_defs) simp
  with \<open>d < 10\<close> show ?thesis unfolding digit_def by simp
qed

lemma digits_value_snoc: "digits_value (cs @ [c]) = 10 * digits_value cs + (unat c - 48)"
  by (induction cs) (simp_all add: algebra_simps)

lemma digits_value_decimal: "digits_value (decimal n) = n"
proof (induction n rule: decimal.induct)
  case (1 n)
  show ?case
  proof (cases "n < 10")
    case True
    then show ?thesis by (simp add: decimal_lt10 unat_digit)
  next
    case False
    then have "digits_value (decimal n) = 10 * digits_value (decimal (n div 10)) + (unat (digit (n mod 10)) - 48)"
      by (simp add: decimal_ge10 digits_value_snoc)
    also have "\<dots> = 10 * (n div 10) + n mod 10"
      using False "1.IH" by (simp add: unat_digit)
    finally show ?thesis by simp
  qed
qed

lemma decimal_inj: "decimal m = decimal n \<Longrightarrow> m = n"
  by (metis digits_value_decimal)

lemma decimal_chars: "c \<in> set (decimal n) \<Longrightarrow> 48 \<le> unat c \<and> unat c \<le> 57"
proof (induction n rule: decimal.induct)
  case (1 n)
  show ?case
  proof (cases "n < 10")
    case True
    with "1.prems" show ?thesis by (auto simp: decimal_lt10 unat_digit)
  next
    case False
    with "1.prems" have "c \<in> set (decimal (n div 10)) \<or> c = digit (n mod 10)"
      by (auto simp: decimal_ge10)
    then show ?thesis
    proof
      assume "c \<in> set (decimal (n div 10))"
      with False "1.IH" show ?thesis by simp
    next
      assume "c = digit (n mod 10)"
      then show ?thesis by (simp add: unat_digit)
    qed
  qed
qed

lemma decimal_not_Nil: "decimal n \<noteq> []"
  by (subst decimal.simps) simp

lemma Number_toString_chars:
  "c \<in> set (Number_toString i) \<Longrightarrow> c = 0x2D \<or> (48 \<le> unat c \<and> unat c \<le> 57)"
  by (auto simp: Number_toString_def dest: decimal_chars split: if_splits)

lemma minus_not_decimal: "0x2D # cs \<noteq> decimal n"
proof
  assume "0x2D # cs = decimal n"
  then have "(0x2D :: jschar) \<in> set (decimal n)" by (metis list.set_intros(1))
  then show False by (auto dest: decimal_chars)
qed

lemma Number_toString_inj: "Number_toString i = Number_toString j \<Longrightarrow> i = j"
proof -
  assume eq: "Number_toString i = Number_toString j"
  consider "i < 0" "j < 0" | "i < 0" "0 \<le> j" | "0 \<le> i" "j < 0" | "0 \<le> i" "0 \<le> j"
    by linarith
  then show ?thesis
  proof cases
    case 1
    with eq have "nat (- i) = nat (- j)" by (auto simp: Number_toString_def dest: decimal_inj)
    with 1 show ?thesis by simp
  next
    case 2
    with eq show ?thesis using minus_not_decimal by (simp add: Number_toString_def)
  next
    case 3
    with eq show ?thesis using minus_not_decimal[of _ "nat i"] by (auto simp add: Number_toString_def)
  next
    case 4
    with eq have "nat i = nat j" by (auto simp: Number_toString_def dest: decimal_inj)
    with 4 show ?thesis by simp
  qed
qed

lemma underscore_not_in_Number_toString: "0x5F \<notin> set (Number_toString i)"
  by (auto dest: Number_toString_chars)

lemma separated_eq:
  assumes "xs @ u # ys = xs' @ u # ys'" and "u \<notin> set xs" and "u \<notin> set xs'"
  shows "xs = xs' \<and> ys = ys'"
proof -
  have "takeWhile (\<lambda>x. x \<noteq> u) (xs @ u # ys) = xs"
    using assms(2) by (auto simp: takeWhile_tail)
  moreover have "takeWhile (\<lambda>x. x \<noteq> u) (xs' @ u # ys') = xs'"
    using assms(3) by (auto simp: takeWhile_tail)
  ultimately have "xs = xs'" using assms(1) by simp
  with assms(1) show ?thesis by simp
qed

text \<open>Trimming leaves nothing exactly when every code unit is white space.\<close>

lemma dropWhile_all_iff: "(\<forall>x\<in>set (dropWhile P s). P x) \<longleftrightarrow> (\<forall>x\<in>set s. P x)"
proof
  assume rest: "\<forall>x\<in>set (dropWhile P s). P x"
  have "dropWhile P s = []"
  proof (rule ccontr)
    assume "dropWhile P s \<noteq> []"
    then have "\<not> P (hd (dropWhile P s))" and "hd (dropWhile P s) \<in> set (dropWhile P s)"
      by (simp_all add: hd_dropWhile)
    with rest show False by blast
  qed
  then show "\<forall>x\<in>set s. P x" by simp
next
  assume "\<forall>x\<in>set s. P x"
  then show "\<forall>x\<in>set (dropWhile P s). P x" by (blast dest: set_dropWhileD)
qed

lemma trim_Nil_iff:
  "trim s = [] \<longleftrightarrow> list_all (\<lambda>c. isWhiteSpace c \<or> isLineTerminator c) s"
proof -
  let ?P = "\<lambda>c. isWhiteSpace c \<or> isLineTerminator c"
  have "trim s = [] \<longleftrightarrow> (\<forall>x\<in>set (dropWhile ?P s). ?P x)"
    by (simp add: trim_def Let_def)
  also have "\<dots> \<longleftrightarrow> (\<forall>x\<in>set s. ?P x)"
    by (rule dropWhile_all_iff)
  finally show ?thesis by (simp add: list_all_iff)
qed

text \<open>Evaluation on concrete strings unfolds these.\<close>

lemmas formatter_defs =
  formatText_def split_def js_def emphasis_match_def delimited_def startsWith_def endsWith_def
  format_part_def slice_def isLineTerminator_def

lemmas render_defs = js_def Number_toString_def decimal_lt10 decimal_ge10 digit_def substr_def


section \<open>Facts about the session identifier\<close>

text \<open>
  Two generated identifiers are equal only when the clock reading and the suffix are: the
  rendering of the reading holds no underscore, so the identifier splits at its second
  underscore in one way.
\<close>

lemma newSessionId_eq_iff:
  "newSessionId now r = newSessionId now' r' \<longleftrightarrow> now = now' \<and> substr r 2 9 = substr r' 2 9"
proof
  assume "newSessionId now r = newSessionId now' r'"
  then have "Number_toString now @ 0x5F # substr r 2 9 = Number_toString now' @ 0x5F # substr r' 2 9"
    by (simp add: newSessionId_def js_def)
  then have "Number_toString now = Number_toString now' \<and> substr r 2 9 = substr r' 2 9"
    by (rule separated_eq) (rule underscore_not_in_Number_toString)+
  then show "now = now' \<and> substr r 2 9 = substr r' 2 9"
    by (auto dest: Number_toString_inj)
next
  assume "now = now' \<and> substr r 2 9 = substr r' 2 9"
  then show "newSessionId now r = newSessionId now' r'" by (simp add: newSessionId_def)
qed





section \<open>Facts about the send sequence\<close>

lemma handleSend_attempt:
  "trim (input h) \<noteq> [] \<Longrightarrow> sessionId h \<noteq> [] \<Longrightarrow>
     handleSend env (h, b) =
       Inr (settle env (fetch env (chat_request env (input h) (sessionId h)))
              (h\<lparr>messages := messages h @ [userMessage env (input h)], input := [], loading := True\<rparr>),
            b\<lparr>sent := sent b @ [Post (chat_request env (input h) (sessionId h))]\<rparr>)"
  by (simp add: handleSend_def Let_def)

lemma handleSend_returns: "\<exists>result. handleSend env hb = Inr result"
  by (cases hb) (simp add: handleSend_def Let_def)

lemma settled_not_ok: "settled_message env (Response False statusText json) = errorMessage env statusText"
  by (simp add: settled_message_def try_reply_def)

lemma settled_rejected: "settled_message env (FetchRejects e) = errorMessage env (error_detail e)"
  by (simp add: settled_message_def try_reply_def)

lemma settled_unparsed:
  "settled_message env (Response True statusText (Inl e)) = errorMessage env (error_detail e)"
  by (simp add: settled_message_def try_reply_def)

lemma settled_caught:
  "try_reply env outcome = Inl e \<Longrightarrow> settled_message env outcome = errorMessage env (error_detail e)"
  by (simp add: settled_message_def)

lemma settled_object:
  "settled_message env (Response True statusText (Inr (JObj kvs))) =
     \<lparr>msg_id = JStr (Number_toString (reply_now env + 1)),
      msg_text =
        (if ToBoolean (own_property kvs (js ''reply'')) then own_property kvs (js ''reply'')
         else if ToBoolean (own_property kvs (js ''message'')) then own_property kvs (js ''message'')
         else JStr (JSON_stringify env (JObj kvs))),
      sender = Bot, timestamp = Date (reply_date env),
      chips = Some (if ToBoolean (own_property kvs (js ''chips'')) then own_property kvs (js ''chips'')
                    else JArr [])\<rparr>"
  by (simp add: settled_message_def try_reply_def botMessage_def reply_text_def reply_chips_def)



section \<open>Facts about the store and the history load\<close>

lemma history_query_select:
  "select_rows table
     \<lparr>from_table = js ''chat_messages'', columns = js ''*'', eq_column = js ''session_id'',
      eq_value = sid, order_column = js ''created_at'', ascending = True\<rparr>
   = Some (sort_key col_created_at (filter (\<lambda>row. col_session_id row = sid) table))"
  by (simp add: select_rows_def Let_def)

lemma hosted_history:
  "hosted table other (history_query sid) =
     Resolved (Success (Some (map as_ChatMessage
       (sort_key col_created_at (filter (\<lambda>row. col_session_id row = sid) table)))))"
  by (simp add: hosted_def history_query_def history_query_select)

lemma initializeSession_loaded:
  assumes "supabase (history_query (fst (savedSessionId now r (localStorage b))))
             = Resolved (Success (Some data))"
    and "data \<noteq> []"
  shows "messages (fst (initializeSession now r supabase (h, b))) = map loadedMessage data"
proof -
  obtain sid stored where saved: "savedSessionId now r (localStorage b) = (sid, stored)"
    by (cases "savedSessionId now r (localStorage b)")
  with assms have "supabase (history_query sid) = Resolved (Success (Some data))"
    by simp
  with saved assms(2) show ?thesis
    by (simp add: initializeSession_def Let_def)
qed

lemma example_select:
  "sort_key col_created_at (filter (\<lambda>row. col_session_id row = js ''session_5_abc'') example_table)
   = [\<lparr>col_id = js ''1'', col_session_id = js ''session_5_abc'', col_role = js ''user'',
       col_content = js ''hi'', col_created_at = 1700000001000\<rparr>,
      \<lparr>col_id = js ''3'', col_session_id = js ''session_5_abc'', col_role = js ''assistant'',
       col_content = js ''hello there'', col_created_at = 1700000002000\<rparr>]"
  by (simp add: example_table_def js_def)


section \<open>The text formatter: claim C8\<close>

text \<open>
  What holds of the formatter in general. A text without an asterisk is one plain segment.
  A run between two asterisks, or between two pairs of them, that holds neither an
  asterisk nor a line terminator is emphasized and loses its delimiters, when the text
  before and after it holds no asterisk.
\<close>

lemma emphasis_match_other: "c \<noteq> 0x2A \<Longrightarrow> emphasis_match (c # cs) = None"
  by (simp add: emphasis_match_def delimited_def startsWith_def js_def)

lemma split_from_plain:
  "0x2A \<notin> set s \<Longrightarrow> split_from piece (s @ rest) = split_from (piece @ s) rest"
  by (induction s arbitrary: piece) (simp_all add: emphasis_match_other)

lemma format_part_plain: "0x2A \<notin> set s \<Longrightarrow> format_part s idx = Text s"
  by (cases s) (auto simp: format_part_def startsWith_def js_def)

lemma lazy_dot_then_run:
  "0x2A \<notin> set x \<Longrightarrow> list_all (\<lambda>c. \<not> isLineTerminator c) x \<Longrightarrow>
     lazy_dot_then (0x2A # stars) (x @ 0x2A # stars @ rest) = Some (length x + Suc (length stars))"
  by (induction x) (simp_all add: startsWith_def)

lemma emphasis_match_double:
  assumes "0x2A \<notin> set x" and "list_all (\<lambda>c. \<not> isLineTerminator c) x"
  shows "emphasis_match (js ''**'' @ x @ js ''**'' @ rest) = Some (length x + 4)"
  using lazy_dot_then_run [OF assms, of "[0x2A]" rest]
  by (simp add: emphasis_match_def delimited_def startsWith_def js_def)

lemma emphasis_match_single:
  assumes "0x2A \<notin> set x" and "list_all (\<lambda>c. \<not> isLineTerminator c) x" and "x \<noteq> []"
  shows "emphasis_match (js ''*'' @ x @ js ''*'' @ rest) = Some (length x + 2)"
proof -
  from assms(1,3) have "delimited (js ''**'') (js ''*'' @ x @ js ''*'' @ rest) = None"
    by (cases x) (auto simp: delimited_def startsWith_def js_def)
  with lazy_dot_then_run [OF assms(1,2), of "[]" rest] show ?thesis
    by (simp add: emphasis_match_def delimited_def startsWith_def js_def)
qed

lemma split_from_match:
  assumes "emphasis_match (m @ rest) = Some (length m)"
  shows "split_from piece (m @ rest) = piece # m # split_from [] rest"
proof (cases m)
  case Nil
  with assms show ?thesis by (auto dest: emphasis_match_pos)
next
  case (Cons c cs)
  with assms show ?thesis by simp
qed

lemma slice_double: "slice (js ''**'' @ x @ js ''**'') 2 (- 2) = x"
  by (simp add: slice_def js_def)

lemma slice_single: "slice (js ''*'' @ x @ js ''*'') 1 (- 1) = x"
  by (simp add: slice_def js_def)

lemma formatText_emphasis:
  assumes "0x2A \<notin> set before" and "0x2A \<notin> set after"
    and "0x2A \<notin> set x" and "list_all (\<lambda>c. \<not> isLineTerminator c) x"
  shows "formatText (before @ js ''**'' @ x @ js ''**'' @ after)
           = [Text before, Strong 1 x, Text after]"
    and "x \<noteq> [] \<Longrightarrow> formatText (before @ js ''*'' @ x @ js ''*'' @ after)
           = [Text before, Strong 1 x, Text after]"
proof -
  have "split (before @ js ''**'' @ x @ js ''**'' @ after)
      = split_from before (js ''**'' @ x @ js ''**'' @ after)"
    using assms(1) by (simp add: split_def split_from_plain)
  also have "\<dots> = [before, js ''**'' @ x @ js ''**'', after]"
    using emphasis_match_double [OF assms(3,4), of after] split_from_plain [OF assms(2), of "[]" "[]"]
      split_from_match [of "js ''**'' @ x @ js ''**''" after before]
    by (simp add: js_def)
  finally have "split (before @ js ''**'' @ x @ js ''**'' @ after)
      = [before, js ''**'' @ x @ js ''**'', after]" .
  moreover have "format_part (js ''**'' @ x @ js ''**'') 1 = Strong 1 x"
    using slice_double [of x] by (simp add: format_part_def startsWith_def endsWith_def js_def)
  ultimately show "formatText (before @ js ''**'' @ x @ js ''**'' @ after)
           = [Text before, Strong 1 x, Text after]"
    using assms(1,2) by (simp add: formatText_def format_part_plain)
next
  assume nonempty: "x \<noteq> []"
  have "split (before @ js ''*'' @ x @ js ''*'' @ after)
      = split_from before (js ''*'' @ x @ js ''*'' @ after)"
    using assms(1) by (simp add: split_def split_from_plain)
  also have "\<dots> = [before, js ''*'' @ x @ js ''*'', after]"
    using emphasis_match_single [OF assms(3,4) nonempty, of after]
      split_from_plain [OF assms(2), of "[]" "[]"]
      split_from_match [of "js ''*'' @ x @ js ''*''" after before]
    by (simp add: js_def)
  finally have "split (before @ js ''*'' @ x @ js ''*'' @ after)
      = [before, js ''*'' @ x @ js ''*'', after]" .
  moreover from nonempty assms(3) have "format_part (js ''*'' @ x @ js ''*'') 1 = Strong 1 x"
    using slice_single [of x]
    by (cases x) (auto simp: format_part_def startsWith_def endsWith_def js_def)
  ultimately show "formatText (before @ js ''*'' @ x @ js ''*'' @ after)
           = [Text before, Strong 1 x, Text after]"
    using assms(1,2) by (simp add: formatText_def format_part_plain)
qed

lemma formatText_plain: "0x2A \<notin> set s \<Longrightarrow> formatText s = [Text s]"
  using split_from_plain [of s "[]" "[]"]
  by (simp add: formatText_def split_def format_part_plain)

text \<open>
  The worked example of the spec holds: \<open>hello **world** *foo*\<close> gives the plain
  \<open>hello \<close>, the emphasized \<open>world\<close>, a plain blank, the emphasized \<open>foo\<close> and a trailing
  empty plain segment.
\<close>

lemma formatText_example:
  "formatText (js ''hello **world** *foo*'') =
     [Text (js ''hello ''), Strong 1 (js ''world''), Text (js '' ''), Strong 3 (js ''foo''),
      Text (js '''')]"
  by (simp add: formatter_defs)

text \<open>
  Claim C8 says that every run which is not delimited becomes a plain segment. On the
  input of a single asterisk the split finds no delimited run, and its one piece \<open>*\<close> is
  still rendered as an emphasized segment, empty: the test of \<open>format_part\<close> is made on
  every piece, and a piece that only starts and ends with an asterisk passes it.
\<close>

theorem formatText_lone_asterisk:
  "split (js ''*'') = [js ''*''] \<and> formatText (js ''*'') = [Strong 0 (js '''')]"
  by (simp add: formatter_defs)


section \<open>Sending: claims C9, C1, C2 and C10\<close>

text \<open>
  Claim C9. For every input whose trimmed form is empty, \<open>handleSend\<close> changes nothing:
  the messages, the input field and the loading flag are the ones before, and no request
  is sent.
\<close>

theorem handleSend_blank_input:
  "trim (input h) = [] \<Longrightarrow> handleSend env (h, b) = Inr (h, b)"
  by (simp add: handleSend_def)

theorem handleSend_blank_input_witness:
  "trim [0x20, 0x09, 0x0A] = []
   \<and> handleSend example_env (example_home\<lparr>input := [0x20, 0x09, 0x0A]\<rparr>, example_browser)
     = Inr (example_home\<lparr>input := [0x20, 0x09, 0x0A]\<rparr>, example_browser)"
proof -
  have blank: "trim (input (example_home\<lparr>input := [0x20, 0x09, 0x0A]\<rparr>)) = []"
    by (simp add: trim_def isWhiteSpace_def isLineTerminator_def)
  from handleSend_blank_input [OF blank] blank show ?thesis by simp
qed

text \<open>
  Claim C1, amended. On HTTP success with a parsed object as body, the appended bot message
  has as text \<open>body.reply\<close> when that is truthy (present, and not the empty string, \<open>null\<close>,
  \<open>false\<close> or zero), else \<open>body.message\<close> when that is truthy, else the stringified body; its
  chips are \<open>body.chips\<close> when truthy, else the empty array. For \<open>{reply: "hi"}\<close> the text
  is \<open>hi\<close> with empty chips; for \<open>{message: "hey", chips: ["a", "b"]}\<close> the text is \<open>hey\<close>
  with chips \<open>a\<close>, \<open>b\<close>.
\<close>

theorem reply_message_truthy:
  "settled_message env (Response True statusText (Inr (JObj kvs))) =
     \<lparr>msg_id = JStr (Number_toString (reply_now env + 1)),
      msg_text =
        (if ToBoolean (own_property kvs (js ''reply'')) then own_property kvs (js ''reply'')
         else if ToBoolean (own_property kvs (js ''message'')) then own_property kvs (js ''message'')
         else JStr (JSON_stringify env (JObj kvs))),
      sender = Bot, timestamp = Date (reply_date env),
      chips = Some (if ToBoolean (own_property kvs (js ''chips'')) then own_property kvs (js ''chips'')
                    else JArr [])\<rparr>
   \<and> messages (settle env (Response True statusText (Inr (JObj kvs))) h)
       = messages h @ [settled_message env (Response True statusText (Inr (JObj kvs)))]
   \<and> msg_text (settled_message env
        (Response True statusText (Inr (JObj [(js ''reply'', JStr (js ''hi''))])))) = JStr (js ''hi'')
   \<and> chips (settled_message env
        (Response True statusText (Inr (JObj [(js ''reply'', JStr (js ''hi''))])))) = Some (JArr [])
   \<and> msg_text (settled_message env
        (Response True statusText
           (Inr (JObj [(js ''message'', JStr (js ''hey'')),
                       (js ''chips'', JArr [JStr (js ''a''), JStr (js ''b'')])]))))
       = JStr (js ''hey'')
   \<and> chips (settled_message env
        (Response True statusText
           (Inr (JObj [(js ''message'', JStr (js ''hey'')),
                       (js ''chips'', JArr [JStr (js ''a''), JStr (js ''b'')])]))))
       = Some (JArr [JStr (js ''a''), JStr (js ''b'')])"
proof (intro conjI)
  show "settled_message env (Response True statusText (Inr (JObj kvs))) =
     \<lparr>msg_id = JStr (Number_toString (reply_now env + 1)),
      msg_text =
        (if ToBoolean (own_property kvs (js ''reply'')) then own_property kvs (js ''reply'')
         else if ToBoolean (own_property kvs (js ''message'')) then own_property kvs (js ''message'')
         else JStr (JSON_stringify env (JObj kvs))),
      sender = Bot, timestamp = Date (reply_date env),
      chips = Some (if ToBoolean (own_property kvs (js ''chips'')) then own_property kvs (js ''chips'')
                    else JArr [])\<rparr>"
    by (rule settled_object)
qed (simp_all add: settle_def settled_object own_property_def js_def)

text \<open>
  A whole send against a backend that answers \<open>{reply: "hi"}\<close>: the user's message, then
  the bot's with the text \<open>hi\<close> and empty chips.
\<close>

theorem reply_message_truthy_witness:
  "handleSend (replying (JObj [(js ''reply'', JStr (js ''hi''))])) (example_home, example_browser)
     = Inr (example_home
              \<lparr>messages :=
                 [\<lparr>msg_id = JStr (js ''1700000000000''), msg_text = JStr (js ''hello''),
                   sender = User, timestamp = Date 1700000000000, chips = None\<rparr>,
                  \<lparr>msg_id = JStr (js ''1700000000501''), msg_text = JStr (js ''hi''),
                   sender = Bot, timestamp = Date 1700000000500, chips = Some (JArr [])\<rparr>],
               input := [], loading := False\<rparr>,
            example_browser
              \<lparr>sent := [Post (chat_request (replying (JObj [(js ''reply'', JStr (js ''hi''))]))
                              (js ''hello'') (js ''session_5_abc''))]\<rparr>)"
proof -
  let ?body = "[(js ''reply'', JStr (js ''hi''))]"
  let ?env = "replying (JObj ?body)"
  have attempt: "trim (input example_home) \<noteq> []" "sessionId example_home \<noteq> []"
    by (simp_all add: example_home_def mounted_def trim_def isWhiteSpace_def isLineTerminator_def js_def)
  have answer: "fetch ?env request = Response True (js ''OK'') (Inr (JObj ?body))" for request
    by (simp add: replying_def)
  have clock: "Number_toString (send_now ?env) = js ''1700000000000''"
    "Number_toString (reply_now ?env + 1) = js ''1700000000501''"
    "send_date ?env = 1700000000000" "reply_date ?env = 1700000000500"
    by (simp_all add: replying_def example_env_def render_defs)
  note built = reply_message_truthy [of ?env "js ''OK''" ?body, THEN conjunct1]
  have bot: "settled_message ?env (Response True (js ''OK'') (Inr (JObj ?body)))
      = \<lparr>msg_id = JStr (js ''1700000000501''), msg_text = JStr (js ''hi''),
         sender = Bot, timestamp = Date 1700000000500, chips = Some (JArr [])\<rparr>"
    unfolding built clock by (simp add: own_property_def js_def)
  show ?thesis
    unfolding handleSend_attempt [OF attempt] answer settle_def bot
    by (simp add: userMessage_def clock example_home_def mounted_def example_browser_def)
qed

text \<open>
  As claim C1 is worded, a reply that is present is the text. For the body
  \<open>{reply: "", message: "hey"}\<close> the reply is present and empty, and the text is \<open>hey\<close>.
\<close>

theorem reply_empty_string_skipped:
  "msg_text (settled_message example_env
      (Response True (js ''OK'')
         (Inr (JObj [(js ''reply'', JStr (js '''')), (js ''message'', JStr (js ''hey''))]))))
     = JStr (js ''hey'')
   \<and> own_property [(js ''reply'', JStr (js '''')), (js ''message'', JStr (js ''hey''))] (js ''reply'')
     = JStr (js '''')"
  by (simp add: settled_object own_property_def js_def)

text \<open>
  Claim C2. No throw leaves \<open>handleSend\<close>: it always returns. A send whose guard passes
  ends in \<open>settle\<close> on the outcome of the request. On a status that is not a success the
  bot message \<open>Error: \<close> followed by the status text is appended; on a rejection of the
  request, on a body that does not parse, and on any throw of the \<open>try\<close> block, the bot
  message \<open>Error: \<close> followed by the message of the thrown \<open>Error\<close>, or by \<open>Unknown error\<close>
  when the thrown value is not an \<open>Error\<close>; the loading flag is cleared.
\<close>

theorem send_failure_becomes_message:
  "(\<exists>result. handleSend env (h, b) = Inr result)
   \<and> (trim (input h) \<noteq> [] \<and> sessionId h \<noteq> [] \<longrightarrow>
        handleSend env (h, b) =
          Inr (settle env (fetch env (chat_request env (input h) (sessionId h)))
                 (h\<lparr>messages := messages h @ [userMessage env (input h)], input := [],
                    loading := True\<rparr>),
               b\<lparr>sent := sent b @ [Post (chat_request env (input h) (sessionId h))]\<rparr>))
   \<and> messages (settle env (Response False statusText json) h')
       = messages h' @ [errorMessage env statusText]
   \<and> messages (settle env (FetchRejects e) h') = messages h' @ [errorMessage env (error_detail e)]
   \<and> messages (settle env (Response True statusText (Inl e)) h')
       = messages h' @ [errorMessage env (error_detail e)]
   \<and> (try_reply env outcome = Inl e \<longrightarrow>
        messages (settle env outcome h') = messages h' @ [errorMessage env (error_detail e)])
   \<and> loading (settle env outcome h') = False
   \<and> msg_text (errorMessage env detail) = JStr (js ''Error: '' @ detail)
   \<and> sender (errorMessage env detail) = Bot
   \<and> error_detail (ErrorInstance m) = m
   \<and> error_detail (NotAnError v) = js ''Unknown error''"
proof (intro conjI)
  show "\<exists>result. handleSend env (h, b) = Inr result"
    by (rule handleSend_returns)
qed (simp_all add: handleSend_attempt settle_def settled_not_ok settled_rejected
       settled_unparsed settled_caught errorMessage_def error_detail_def)

theorem send_failure_becomes_message_witness:
  "handleSend example_env (example_home, example_browser) =
     Inr (example_home
            \<lparr>messages := [userMessage example_env (js ''hello''),
                          errorMessage example_env (js ''Failed to fetch'')],
             input := [], loading := False\<rparr>,
          example_browser
            \<lparr>sent := [Post (chat_request example_env (js ''hello'') (js ''session_5_abc''))]\<rparr>)
   \<and> msg_text (errorMessage example_env (js ''Failed to fetch'')) = JStr (js ''Error: Failed to fetch'')
   \<and> messages (settle example_env (Response True (js ''OK'') (Inr JNull)) example_home)
     = [errorMessage example_env (js ''Cannot read properties of null'')]
   \<and> map msg_text (messages (settle example_env
        (Response False (js ''Internal Server Error'') (Inl (NotAnError JUndefined))) example_home))
     = [JStr (js ''Error: Internal Server Error'')]"
proof -
  have attempt: "trim (input example_home) \<noteq> [] \<and> sessionId example_home \<noteq> []"
    by (simp add: example_home_def mounted_def trim_def isWhiteSpace_def isLineTerminator_def js_def)
  have thrown: "try_reply example_env (Response True (js ''OK'') (Inr JNull))
      = Inl (ErrorInstance (js ''Cannot read properties of null''))"
    by (simp add: try_reply_def botMessage_def reply_text_def example_env_def)
  note caught = send_failure_becomes_message
    [where env = example_env and h = example_home and b = example_browser and h' = example_home
       and e = "ErrorInstance (js ''Cannot read properties of null'')"
       and outcome = "Response True (js ''OK'') (Inr JNull)" and detail = "js ''Failed to fetch''"]
  from caught attempt
  have "handleSend example_env (example_home, example_browser) =
          Inr (settle example_env
                 (fetch example_env (chat_request example_env (input example_home) (sessionId example_home)))
                 (example_home\<lparr>messages := messages example_home @ [userMessage example_env (input example_home)],
                    input := [], loading := True\<rparr>),
               example_browser\<lparr>sent := sent example_browser
                  @ [Post (chat_request example_env (input example_home) (sessionId example_home))]\<rparr>)"
    by blast
  moreover from caught thrown
  have "messages (settle example_env (Response True (js ''OK'') (Inr JNull)) example_home)
      = messages example_home @ [errorMessage example_env (error_detail (ErrorInstance (js ''Cannot read properties of null'')))]"
    by blast
  moreover from caught
  have "msg_text (errorMessage example_env (js ''Failed to fetch'')) = JStr (js ''Error: '' @ js ''Failed to fetch'')"
    by blast
  moreover from send_failure_becomes_message
    [where env = example_env and h' = example_home and statusText = "js ''Internal Server Error''"
       and json = "Inl (NotAnError JUndefined)" and detail = "js ''Internal Server Error''"]
  have "messages (settle example_env
          (Response False (js ''Internal Server Error'') (Inl (NotAnError JUndefined))) example_home)
        = messages example_home @ [errorMessage example_env (js ''Internal Server Error'')]
      \<and> msg_text (errorMessage example_env (js ''Internal Server Error''))
        = JStr (js ''Error: '' @ js ''Internal Server Error'')"
    by blast
  moreover have "fetch example_env request = FetchRejects (ErrorInstance (js ''Failed to fetch''))" for request
    by (simp add: example_env_def)
  ultimately show ?thesis
    by (simp add: example_home_def mounted_def example_browser_def settle_def settled_rejected
          error_detail_def js_def)
qed

text \<open>
  Claim C10. The message of a failure branch has no chips: not on a status that is not a
  success, not on a rejected request, not on a body that does not parse, not on any throw
  of the \<open>try\<close> block. A settled message that has chips was built by \<open>botMessage\<close> from
  the parsed body of a successful response. The user's own message has none either.
\<close>

theorem error_message_without_chips:
  "chips (errorMessage env detail) = None
   \<and> chips (settled_message env (Response False statusText json)) = None
   \<and> chips (settled_message env (FetchRejects e)) = None
   \<and> chips (settled_message env (Response True statusText (Inl e))) = None
   \<and> (try_reply env outcome = Inl e \<longrightarrow> chips (settled_message env outcome) = None)
   \<and> (chips (settled_message env outcome) \<noteq> None \<longrightarrow>
        (\<exists>statusText data. outcome = Response True statusText (Inr data)
           \<and> botMessage env data = Inr (settled_message env outcome)))
   \<and> chips (userMessage env inp) = None"
proof -
  have "chips (settled_message env outcome) \<noteq> None \<longrightarrow>
        (\<exists>statusText data. outcome = Response True statusText (Inr data)
           \<and> botMessage env data = Inr (settled_message env outcome))"
    by (auto simp: settled_message_def try_reply_def errorMessage_def
             split: fetch_outcome.splits if_splits sum.splits)
  then show ?thesis
    by (simp add: settled_not_ok settled_rejected settled_unparsed settled_caught errorMessage_def
          userMessage_def)
qed

theorem error_message_without_chips_witness:
  "chips (settled_message example_env (Response True (js ''OK'') (Inr JNull))) = None
   \<and> chips (settled_message example_env
        (Response True (js ''OK'') (Inr (JObj [(js ''reply'', JStr (js ''hi''))])))) = Some (JArr [])
   \<and> botMessage example_env (JObj [(js ''reply'', JStr (js ''hi''))])
     = Inr (settled_message example_env
        (Response True (js ''OK'') (Inr (JObj [(js ''reply'', JStr (js ''hi''))]))))"
proof -
  have thrown: "try_reply example_env (Response True (js ''OK'') (Inr JNull))
      = Inl (ErrorInstance (js ''Cannot read properties of null''))"
    by (simp add: try_reply_def botMessage_def reply_text_def example_env_def)
  from error_message_without_chips
    [where env = example_env and outcome = "Response True (js ''OK'') (Inr JNull)"
       and e = "ErrorInstance (js ''Cannot read properties of null'')"] thrown
  have none: "chips (settled_message example_env (Response True (js ''OK'') (Inr JNull))) = None"
    by blast
  have attached: "chips (settled_message example_env
        (Response True (js ''OK'') (Inr (JObj [(js ''reply'', JStr (js ''hi''))])))) = Some (JArr [])"
    by (simp add: settled_object own_property_def js_def)
  then have "chips (settled_message example_env
        (Response True (js ''OK'') (Inr (JObj [(js ''reply'', JStr (js ''hi''))])))) \<noteq> None"
    by simp
  with error_message_without_chips
    [where env = example_env
       and outcome = "Response True (js ''OK'') (Inr (JObj [(js ''reply'', JStr (js ''hi''))]))"]
  have "\<exists>statusText data.
      Response True (js ''OK'') (Inr (JObj [(js ''reply'', JStr (js ''hi''))]))
        = Response True statusText (Inr data)
      \<and> botMessage example_env data
          = Inr (settled_message example_env
              (Response True (js ''OK'') (Inr (JObj [(js ''reply'', JStr (js ''hi''))]))))"
    by blast
  then have "botMessage example_env (JObj [(js ''reply'', JStr (js ''hi''))])
     = Inr (settled_message example_env
        (Response True (js ''OK'') (Inr (JObj [(js ''reply'', JStr (js ''hi''))]))))"
    by auto
  with none attached show ?thesis by simp
qed


section \<open>Loading the history on mount: claim C3\<close>

text \<open>
  Claim C3. When the history query of the mounted page succeeds with rows that are not
  null and not empty, the message list is the rows mapped one by one in their order: the
  role \<open>user\<close> gives the sender \<open>user\<close>, every other role \<open>bot\<close>; the text is the content;
  no message has chips. With a store that holds a table, the rows are the session's in
  ascending \<open>created_at\<close>, and so are the timestamps of the messages.
\<close>

theorem initializeSession_restores_history:
  "(supabase (history_query (fst (savedSessionId now r (localStorage b))))
       = Resolved (Success (Some data)) \<and> data \<noteq> [] \<longrightarrow>
      messages (fst (initializeSession now r supabase (h, b))) = map loadedMessage data
      \<and> map sender (messages (fst (initializeSession now r supabase (h, b))))
          = map (\<lambda>row. if role row = js ''user'' then User else Bot) data
      \<and> map msg_text (messages (fst (initializeSession now r supabase (h, b))))
          = map (\<lambda>row. JStr (content row)) data
      \<and> list_all (\<lambda>m. chips m = None) (messages (fst (initializeSession now r supabase (h, b)))))
   \<and> (rows = sort_key col_created_at
                (filter (\<lambda>row. col_session_id row = fst (savedSessionId now r (localStorage b))) table)
        \<and> rows \<noteq> [] \<longrightarrow>
      messages (fst (initializeSession now r (hosted table other) (h, b)))
        = map (\<lambda>row. loadedMessage (as_ChatMessage row)) rows
      \<and> map timestamp (messages (fst (initializeSession now r (hosted table other) (h, b))))
          = map (\<lambda>row. Date (col_created_at row)) rows
      \<and> sorted (map col_created_at rows))"
proof (intro conjI impI)
  assume a: "supabase (history_query (fst (savedSessionId now r (localStorage b))))
       = Resolved (Success (Some data)) \<and> data \<noteq> []"
  then have loaded: "messages (fst (initializeSession now r supabase (h, b))) = map loadedMessage data"
    by (simp add: initializeSession_loaded)
  then show "messages (fst (initializeSession now r supabase (h, b))) = map loadedMessage data" .
  from loaded show "map sender (messages (fst (initializeSession now r supabase (h, b))))
          = map (\<lambda>row. if role row = js ''user'' then User else Bot) data"
    by (simp add: loadedMessage_def)
  from loaded show "map msg_text (messages (fst (initializeSession now r supabase (h, b))))
          = map (\<lambda>row. JStr (content row)) data"
    by (simp add: loadedMessage_def)
  from loaded show "list_all (\<lambda>m. chips m = None) (messages (fst (initializeSession now r supabase (h, b))))"
    by (simp add: loadedMessage_def list_all_iff)
next
  assume b: "rows = sort_key col_created_at
                (filter (\<lambda>row. col_session_id row = fst (savedSessionId now r (localStorage b))) table)
        \<and> rows \<noteq> []"
  then have rows: "rows = sort_key col_created_at
      (filter (\<lambda>row. col_session_id row = fst (savedSessionId now r (localStorage b))) table)"
    and some: "rows \<noteq> []"
    by blast+
  from rows have "hosted table other (history_query (fst (savedSessionId now r (localStorage b))))
      = Resolved (Success (Some (map as_ChatMessage rows)))"
    by (simp add: hosted_history)
  moreover from some have "map as_ChatMessage rows \<noteq> []" by simp
  ultimately have loaded: "messages (fst (initializeSession now r (hosted table other) (h, b)))
      = map loadedMessage (map as_ChatMessage rows)"
    by (rule initializeSession_loaded)
  then show "messages (fst (initializeSession now r (hosted table other) (h, b)))
        = map (\<lambda>row. loadedMessage (as_ChatMessage row)) rows"
    by simp
  from loaded show "map timestamp (messages (fst (initializeSession now r (hosted table other) (h, b))))
          = map (\<lambda>row. Date (col_created_at row)) rows"
    by (simp add: loadedMessage_def as_ChatMessage_def)
  from rows show "sorted (map col_created_at rows)" by simp
qed

theorem initializeSession_restores_history_witness:
  "map msg_text (messages (fst (initializeSession 1700000009000 (js ''0.4fzyo82mvyr'')
       (hosted example_table offline) (mounted, example_browser))))
     = [JStr (js ''hi''), JStr (js ''hello there'')]
   \<and> map sender (messages (fst (initializeSession 1700000009000 (js ''0.4fzyo82mvyr'')
       (hosted example_table offline) (mounted, example_browser))))
     = [User, Bot]
   \<and> map timestamp (messages (fst (initializeSession 1700000009000 (js ''0.4fzyo82mvyr'')
       (hosted example_table offline) (mounted, example_browser))))
     = [Date 1700000001000, Date 1700000002000]
   \<and> list_all (\<lambda>m. chips m = None)
        (messages (fst (initializeSession 1700000009000 (js ''0.4fzyo82mvyr'')
           (hosted example_table offline) (mounted, example_browser))))"
proof -
  let ?now = "1700000009000 :: int" and ?r = "js ''0.4fzyo82mvyr''"
  let ?rows = "sort_key col_created_at
      (filter (\<lambda>row. col_session_id row = js ''session_5_abc'') example_table)"
  have saved: "fst (savedSessionId ?now ?r (localStorage example_browser)) = js ''session_5_abc''"
    by (simp add: savedSessionId_def example_browser_def Let_def js_def)
  have answer: "hosted example_table offline
        (history_query (fst (savedSessionId ?now ?r (localStorage example_browser))))
      = Resolved (Success (Some (map as_ChatMessage ?rows))) \<and> map as_ChatMessage ?rows \<noteq> []"
    by (simp only: saved hosted_history example_select) simp
  have rows: "?rows = sort_key col_created_at
      (filter (\<lambda>row. col_session_id row
          = fst (savedSessionId ?now ?r (localStorage example_browser))) example_table)
      \<and> ?rows \<noteq> []"
    by (simp only: saved example_select) simp
  note restored = initializeSession_restores_history
    [of "hosted example_table offline" ?now ?r example_browser "map as_ChatMessage ?rows"
        mounted ?rows example_table offline]
  from restored answer rows
  have "map msg_text (messages (fst (initializeSession ?now ?r (hosted example_table offline)
            (mounted, example_browser))))
          = map (\<lambda>row. JStr (content row)) (map as_ChatMessage ?rows)"
    and "map sender (messages (fst (initializeSession ?now ?r (hosted example_table offline)
            (mounted, example_browser))))
          = map (\<lambda>row. if role row = js ''user'' then User else Bot) (map as_ChatMessage ?rows)"
    and "map timestamp (messages (fst (initializeSession ?now ?r (hosted example_table offline)
            (mounted, example_browser))))
          = map (\<lambda>row. Date (col_created_at row)) ?rows"
    and "list_all (\<lambda>m. chips m = None)
        (messages (fst (initializeSession ?now ?r (hosted example_table offline)
           (mounted, example_browser))))"
    by blast+
  then show ?thesis
    unfolding example_select by (simp add: as_ChatMessage_def js_def)
qed


section \<open>The gateway: claim C7\<close>

text \<open>
  Claim C7. \<open>getHistory\<close> and \<open>saveMessage\<close> always return: on a rejected call and on
  a query error the result is \<open>null\<close>, on success it is the data of the answer. Against a
  store that holds a table, \<open>getHistory\<close> returns the rows of the session, all of them and
  no others, in ascending \<open>created_at\<close>. The row \<open>saveMessage\<close> inserts has the session,
  the role and the content, and neither an \<open>id\<close> nor a \<open>created_at\<close>.
\<close>

theorem getHistory_saveMessage_total:
  "(\<exists>result. getHistory supabase sid = Inr result)
   \<and> (\<exists>result. saveMessage supabase sid r c = Inr result)
   \<and> (supabase (history_query sid) = Rejected e1 \<longrightarrow> getHistory supabase sid = Inr None)
   \<and> (supabase (history_query sid) = Resolved (Failure err1) \<longrightarrow> getHistory supabase sid = Inr None)
   \<and> (supabase (history_query sid) = Resolved (Success data1) \<longrightarrow>
        getHistory supabase sid = Inr data1)
   \<and> getHistory (hosted table other) sid =
        Inr (Some (map as_ChatMessage
               (sort_key col_created_at (filter (\<lambda>row. col_session_id row = sid) table))))
   \<and> sorted (map col_created_at
               (sort_key col_created_at (filter (\<lambda>row. col_session_id row = sid) table)))
   \<and> mset (sort_key col_created_at (filter (\<lambda>row. col_session_id row = sid) table))
       = filter_mset (\<lambda>row. col_session_id row = sid) (mset table)
   \<and> (supabase (save_request sid r c) = Rejected e2 \<longrightarrow> saveMessage supabase sid r c = Inr None)
   \<and> (supabase (save_request sid r c) = Resolved (Failure err2) \<longrightarrow>
        saveMessage supabase sid r c = Inr None)
   \<and> (supabase (save_request sid r c) = Resolved (Success data2) \<longrightarrow>
        saveMessage supabase sid r c = Inr data2)
   \<and> save_request sid r c =
        Insert (js ''chat_messages'')
          [\<lparr>row_id = None, session_id = sid, role = r, content = c, created_at = None\<rparr>]"
proof (intro conjI)
  show "\<exists>result. getHistory supabase sid = Inr result"
    by (simp add: getHistory_def split: sum.split)
  show "\<exists>result. saveMessage supabase sid r c = Inr result"
    by (simp add: saveMessage_def split: sum.split)
  show "getHistory (hosted table other) sid =
        Inr (Some (map as_ChatMessage
               (sort_key col_created_at (filter (\<lambda>row. col_session_id row = sid) table))))"
    by (simp add: getHistory_def getHistory_try_def hosted_history)
qed (simp_all add: getHistory_def getHistory_try_def saveMessage_def saveMessage_try_def
       save_request_def)

theorem getHistory_saveMessage_total_witness:
  "getHistory offline (js ''session_5_abc'') = Inr None
   \<and> saveMessage offline (js ''session_5_abc'') (js ''user'') (js ''hi'') = Inr None
   \<and> getHistory denied (js ''session_5_abc'') = Inr None
   \<and> saveMessage denied (js ''session_5_abc'') (js ''user'') (js ''hi'') = Inr None
   \<and> getHistory (hosted example_table inserted) (js ''session_5_abc'')
     = Inr (Some
         [\<lparr>row_id = Some (js ''1''), session_id = js ''session_5_abc'', role = js ''user'',
           content = js ''hi'', created_at = Some 1700000001000\<rparr>,
          \<lparr>row_id = Some (js ''3''), session_id = js ''session_5_abc'', role = js ''assistant'',
           content = js ''hello there'', created_at = Some 1700000002000\<rparr>])
   \<and> saveMessage (hosted example_table inserted) (js ''session_5_abc'') (js ''user'') (js ''hi'')
     = Inr None"
proof -
  let ?sid = "js ''session_5_abc''" and ?r = "js ''user''" and ?c = "js ''hi''"
  have off: "offline (history_query ?sid) = Rejected (ErrorInstance (js ''Failed to fetch''))"
    "offline (save_request ?sid ?r ?c) = Rejected (ErrorInstance (js ''Failed to fetch''))"
    by (simp_all add: offline_def)
  have den: "denied (history_query ?sid) = Resolved (Failure (PostgrestError (js ''permission denied'')))"
    "denied (save_request ?sid ?r ?c) = Resolved (Failure (PostgrestError (js ''permission denied'')))"
    by (simp_all add: denied_def)
  have hos: "hosted example_table inserted (history_query ?sid)
      = Resolved (Success (Some (map as_ChatMessage (sort_key col_created_at
          (filter (\<lambda>row. col_session_id row = ?sid) example_table)))))"
    "hosted example_table inserted (save_request ?sid ?r ?c) = Resolved (Success None)"
    by (simp add: hosted_history) (simp add: hosted_def save_request_def inserted_def)
  from getHistory_saveMessage_total
    [where supabase = offline and sid = ?sid and r = ?r and c = ?c
       and ?e1.0 = "ErrorInstance (js ''Failed to fetch'')"
       and ?e2.0 = "ErrorInstance (js ''Failed to fetch'')"] off
  have 1: "getHistory offline ?sid = Inr None" "saveMessage offline ?sid ?r ?c = Inr None"
    by blast+
  from getHistory_saveMessage_total
    [where supabase = denied and sid = ?sid and r = ?r and c = ?c
       and ?err1.0 = "PostgrestError (js ''permission denied'')"
       and ?err2.0 = "PostgrestError (js ''permission denied'')"] den
  have 2: "getHistory denied ?sid = Inr None" "saveMessage denied ?sid ?r ?c = Inr None"
    by blast+
  from getHistory_saveMessage_total
    [where supabase = "hosted example_table inserted" and sid = ?sid and r = ?r and c = ?c
       and ?data1.0 = "Some (map as_ChatMessage (sort_key col_created_at
          (filter (\<lambda>row. col_session_id row = ?sid) example_table)))"
       and ?data2.0 = None] hos
  have 3: "getHistory (hosted example_table inserted) ?sid
      = Inr (Some (map as_ChatMessage (sort_key col_created_at
          (filter (\<lambda>row. col_session_id row = ?sid) example_table))))"
    "saveMessage (hosted example_table inserted) ?sid ?r ?c = Inr None"
    by blast+
  from 1 2 3 show ?thesis
    unfolding example_select by (simp add: as_ChatMessage_def)
qed


section \<open>The session identifier: claims C5, C6 and C4\<close>

text \<open>
  Claim C5, amended. A generated identifier is \<open>session_\<close>, the decimal clock reading,
  an underscore and a suffix: the code units 2 to 10 of \<open>Math.random().toString(36)\<close>, which
  are as many as that string has there and at most 9, and digits of base 36 when the
  fraction is. The first visit (nothing stored) and the reset both generate it.
\<close>

theorem newSessionId_form:
  "newSessionId now random36 =
     js ''session_'' @ Number_toString now @ js ''_'' @ substr random36 2 9
   \<and> length (substr random36 2 9) = min 9 (length random36 - 2)
   \<and> (list_all isBase36 (drop 2 random36) \<longrightarrow> list_all isBase36 (substr random36 2 9))
   \<and> (0 \<le> now \<longrightarrow> digits_value (Number_toString now) = nat now)
   \<and> (stored (js ''chatSessionId'') = None \<longrightarrow>
        fst (savedSessionId now random36 stored) = newSessionId now random36)
   \<and> sessionId (fst (handleClearChat True now random36 (h, b))) = newSessionId now random36"
proof -
  have "list_all isBase36 (drop 2 random36) \<longrightarrow> list_all isBase36 (substr random36 2 9)"
    by (auto simp: substr_def list_all_iff dest: in_set_takeD)
  moreover have "0 \<le> now \<longrightarrow> digits_value (Number_toString now) = nat now"
    by (simp add: Number_toString_def digits_value_decimal)
  ultimately show ?thesis
    by (simp add: newSessionId_def substr_def savedSessionId_def handleClearChat_def Let_def)
qed

theorem newSessionId_form_witness:
  "newSessionId 1700000000000 (js ''0.4fzyo82mvyr'') = js ''session_1700000000000_4fzyo82mv''
   \<and> length (substr (js ''0.4fzyo82mvyr'') 2 9) = 9
   \<and> list_all isBase36 (substr (js ''0.4fzyo82mvyr'') 2 9)
   \<and> digits_value (Number_toString 1700000000000) = 1700000000000
   \<and> fst (savedSessionId 1700000000000 (js ''0.4fzyo82mvyr'') Map.empty)
       = js ''session_1700000000000_4fzyo82mv''"
  using newSessionId_form [of 1700000000000 "js ''0.4fzyo82mvyr''" Map.empty]
  by (simp add: substr_def js_def isBase36_def Number_toString_def decimal_lt10 decimal_ge10 digit_def)

text \<open>
  As claim C5 is worded, the suffix has 9 characters. One half in base 36 is \<open>0.i\<close>, and
  the suffix taken from it is the one character \<open>i\<close>.
\<close>

theorem newSessionId_short_suffix:
  "newSessionId 1700000000000 (js ''0.i'') = js ''session_1700000000000_i''
   \<and> length (substr (js ''0.i'') 2 9) = 1"
  by (simp add: newSessionId_def substr_def js_def Number_toString_def decimal_lt10 decimal_ge10 digit_def)




text \<open>
  Claim C4, amended. A confirmed \<open>handleClearChat\<close> empties the message list and the
  input, sets and stores a generated identifier, and sends no request, so that no stored
  row is touched. The identifier differs from the one before whenever that one was
  generated at another clock reading or with another suffix; nothing else makes it
  differ. Without confirmation nothing changes.
\<close>

theorem handleClearChat_resets:
  "handleClearChat True now r (h, b) =
     (h\<lparr>messages := [], input := [], sessionId := newSessionId now r\<rparr>,
      b\<lparr>localStorage := (localStorage b)(js ''chatSessionId'' \<mapsto> newSessionId now r)\<rparr>)
   \<and> sent (snd (handleClearChat True now r (h, b))) = sent b
   \<and> (sessionId h = newSessionId now0 r0 \<and> (now0 \<noteq> now \<or> substr r0 2 9 \<noteq> substr r 2 9) \<longrightarrow>
        sessionId (fst (handleClearChat True now r (h, b))) \<noteq> sessionId h)
   \<and> handleClearChat False now r (h, b) = (h, b)"
  by (auto simp: handleClearChat_def Let_def newSessionId_eq_iff)

theorem handleClearChat_resets_witness:
  "messages (fst (handleClearChat True 1700000000777 (js ''0.4fzyo82mvyr'')
       (mounted\<lparr>sessionId := newSessionId 1700000000000 (js ''0.4fzyo82mvyr'')\<rparr>,
        \<lparr>localStorage = Map.empty, sent = []\<rparr>))) = []
   \<and> sessionId (fst (handleClearChat True 1700000000777 (js ''0.4fzyo82mvyr'')
       (mounted\<lparr>sessionId := newSessionId 1700000000000 (js ''0.4fzyo82mvyr'')\<rparr>,
        \<lparr>localStorage = Map.empty, sent = []\<rparr>)))
      \<noteq> newSessionId 1700000000000 (js ''0.4fzyo82mvyr'')"
proof -
  let ?h = "mounted\<lparr>sessionId := newSessionId 1700000000000 (js ''0.4fzyo82mvyr'')\<rparr>"
  let ?b = "\<lparr>localStorage = Map.empty, sent = []\<rparr>"
  note reset = handleClearChat_resets [of 1700000000777 "js ''0.4fzyo82mvyr''" ?h ?b
      1700000000000 "js ''0.4fzyo82mvyr''"]
  have previous: "sessionId ?h = newSessionId 1700000000000 (js ''0.4fzyo82mvyr'')
      \<and> ((1700000000000 :: int) \<noteq> 1700000000777
           \<or> substr (js ''0.4fzyo82mvyr'') 2 9 \<noteq> substr (js ''0.4fzyo82mvyr'') 2 9)"
    by simp
  from reset previous
  have "sessionId (fst (handleClearChat True 1700000000777 (js ''0.4fzyo82mvyr'') (?h, ?b)))
          \<noteq> sessionId ?h"
    by blast
  moreover from reset
  have "messages (fst (handleClearChat True 1700000000777 (js ''0.4fzyo82mvyr'') (?h, ?b))) = []"
    by simp
  ultimately show ?thesis by simp
qed

text \<open>
  As claim C4 is worded, the new identifier always differs from the previous one. Cleared
  twice at one clock reading with one random number, the page keeps its identifier.
\<close>

theorem handleClearChat_same_identifier:
  "sessionId (fst (handleClearChat True 1700000000000 (js ''0.4fzyo82mvyr'')
       (mounted, \<lparr>localStorage = Map.empty, sent = []\<rparr>)))
     = js ''session_1700000000000_4fzyo82mv''
   \<and> sessionId (fst (handleClearChat True 1700000000000 (js ''0.4fzyo82mvyr'')
       (handleClearChat True 1700000000000 (js ''0.4fzyo82mvyr'')
          (mounted, \<lparr>localStorage = Map.empty, sent = []\<rparr>))))
     = js ''session_1700000000000_4fzyo82mv''"
  by (simp add: handleClearChat_def Let_def newSessionId_def render_defs)

end
